theory Spec2Isabelle
  imports Complex_Main "HOL-Library.AList" "HOL-Library.Sublist"
begin

section \<open>JavaScript values\<close>

text \<open>
  The values that travel through the extension are what \<^verbatim>\<open>JSON.parse\<close> builds: null,
  booleans, numbers, strings, arrays and objects. An object is its list of properties in
  insertion order (JavaScript lists keys that are array indices first; the quiz format has
  none). A string is a list of code units, here the characters of type \<^typ>\<open>char\<close>
  (code units 0 to 255). A number is an integer, kept exactly: the quiz format only
  carries the small integer \<^verbatim>\<open>correctIndex\<close>, and JavaScript's doubles agree with the
  integers below \<open>2\<^sup>5\<^sup>3\<close>.
\<close>

datatype json =
    JNull
  | JBool bool
  | JNum int
  | JStr string
  | JArr "json list"
  | JObj "(string \<times> json) list"

text \<open>
  A thrown JavaScript error, by constructor, with its \<^verbatim>\<open>message\<close>. The text of a
  \<^verbatim>\<open>TypeError\<close> or \<^verbatim>\<open>SyntaxError\<close> raised by the engine is chosen by the engine, so a
  function that can raise one takes that text as an argument (\<open>tmsg\<close>, \<open>smsg\<close>).
\<close>

datatype js_error =
    JsError string
  | JsTypeError string
  | JsSyntaxError string

fun message :: "js_error \<Rightarrow> string" where
  "message (JsError m) = m"
| "message (JsTypeError m) = m"
| "message (JsSyntaxError m) = m"

text \<open>
  White space as the regular expression class \<^verbatim>\<open>\s\<close> and \<^verbatim>\<open>String.prototype.trim\<close>
  see it, among the code units 0 to 255: tab, line feed, vertical tab, form feed,
  carriage return, space and the no-break space.
\<close>

definition js_space :: "char \<Rightarrow> bool" where
  "js_space c = ((of_char c :: nat) \<in> {9, 10, 11, 12, 13, 32, 160})"

definition js_trim :: "string \<Rightarrow> string" where
  "js_trim s = rev (dropWhile js_space (rev (dropWhile js_space s)))"

text \<open>\<^verbatim>\<open>String(n)\<close> of a natural number, and of an integer: its decimal digits.\<close>

function show_nat :: "nat \<Rightarrow> string" where
  "show_nat n =
     (if n < 10 then [char_of (48 + n)]
      else show_nat (n div 10) @ [char_of (48 + n mod 10)])"
  by pat_completeness auto
termination
  by (relation "measure id") auto

declare show_nat.simps [simp del]

definition show_int :: "int \<Rightarrow> string" where
  "show_int i = (if i < 0 then CHR ''-'' # show_nat (nat (- i)) else show_nat (nat i))"

section \<open>\<^verbatim>\<open>JSON.parse\<close> and \<^verbatim>\<open>JSON.stringify\<close>\<close>

text \<open>
  \<^verbatim>\<open>JSON.parse\<close> in two passes. The first cuts the text into tokens: the six punctuation
  marks, and the atoms (string, number and the three literal names) with their values.
  White space between tokens is the JSON white space (space, tab, line feed, carriage
  return). A string ends at the first unescaped quote; a control character in it is an
  error; the escapes are those of JSON. Since a string is a list of \<^typ>\<open>char\<close>, an
  escape \<^verbatim>\<open>\uXXXX\<close> above 00FF has no value here and is treated as an error. A number is
  an optional minus sign and decimal digits without a leading zero; a fraction or an
  exponent is not read (the next token fails on its first character).
\<close>

datatype token = TLBrace | TRBrace | TLBracket | TRBracket | TColon | TComma | TAtom json

definition json_ws :: "char \<Rightarrow> bool" where
  "json_ws c = (c = CHR 0x20 \<or> c = CHR 0x09 \<or> c = CHR 0x0A \<or> c = CHR 0x0D)"

definition is_digit :: "char \<Rightarrow> bool" where
  "is_digit c = (48 \<le> (of_char c :: nat) \<and> (of_char c :: nat) \<le> 57)"

definition digit_val :: "char \<Rightarrow> nat" where
  "digit_val c = of_char c - 48"

definition hex_val :: "char \<Rightarrow> nat option" where
  "hex_val c =
     (let n = (of_char c :: nat) in
      if 48 \<le> n \<and> n \<le> 57 then Some (n - 48)
      else if 97 \<le> n \<and> n \<le> 102 then Some (n - 87)
      else if 65 \<le> n \<and> n \<le> 70 then Some (n - 55)
      else None)"

definition hex4 :: "char \<Rightarrow> char \<Rightarrow> char \<Rightarrow> char \<Rightarrow> nat option" where
  "hex4 a b c d =
     (case (hex_val a, hex_val b, hex_val c, hex_val d) of
        (Some w, Some x, Some y, Some z) \<Rightarrow> Some (((w * 16 + x) * 16 + y) * 16 + z)
      | _ \<Rightarrow> None)"

definition unescape :: "char \<Rightarrow> char option" where
  "unescape e =
     (if e = CHR 0x22 then Some (CHR 0x22)
      else if e = CHR 0x5C then Some (CHR 0x5C)
      else if e = CHR ''/'' then Some (CHR ''/'')
      else if e = CHR ''b'' then Some (CHR 0x08)
      else if e = CHR ''f'' then Some (CHR 0x0C)
      else if e = CHR ''n'' then Some (CHR 0x0A)
      else if e = CHR ''r'' then Some (CHR 0x0D)
      else if e = CHR ''t'' then Some (CHR 0x09)
      else None)"

definition consume :: "char \<Rightarrow> (string \<times> string) option \<Rightarrow> (string \<times> string) option" where
  "consume c r = map_option (\<lambda>(s, rest). (c # s, rest)) r"

fun string_body :: "string \<Rightarrow> (string \<times> string) option" where
  "string_body [] = None"
| "string_body (c # cs) =
     (if c = CHR 0x22 then Some ([], cs)
      else if c = CHR 0x5C then
        (case cs of
           [] \<Rightarrow> None
         | e # es \<Rightarrow>
             if e = CHR ''u'' then
               (case es of
                  h1 # h2 # h3 # h4 # rest \<Rightarrow>
                    (case hex4 h1 h2 h3 h4 of
                       None \<Rightarrow> None
                     | Some n \<Rightarrow> if n < 256 then consume (char_of n) (string_body rest) else None)
                | _ \<Rightarrow> None)
             else
               (case unescape e of
                  None \<Rightarrow> None
                | Some ch \<Rightarrow> consume ch (string_body es)))
      else if (of_char c :: nat) < 32 then None
      else consume c (string_body cs))"

definition number_body :: "string \<Rightarrow> (nat \<times> string) option" where
  "number_body s =
     (let ds = takeWhile is_digit s in
      if ds = [] then None
      else if hd ds = CHR ''0'' \<and> tl ds \<noteq> [] then None
      else Some (foldl (\<lambda>a d. 10 * a + digit_val d) 0 ds, dropWhile is_digit s))"

lemma string_body_length: "string_body s = Some (v, rest) \<Longrightarrow> length rest < length s"
proof (induction s arbitrary: v rule: string_body.induct)
  case 1
  then show ?case by simp
next
  case (2 c cs)
  then show ?case
    by (auto simp: consume_def split: if_splits list.splits option.splits) fastforce+
qed

lemma number_body_length: "number_body s = Some (n, rest) \<Longrightarrow> length rest < length s"
proof -
  assume a: "number_body s = Some (n, rest)"
  then have ne: "takeWhile is_digit s \<noteq> []" and r: "rest = dropWhile is_digit s"
    by (auto simp: number_body_def Let_def split: if_splits)
  have "length (takeWhile is_digit s) + length (dropWhile is_digit s) = length s"
    by (metis length_append takeWhile_dropWhile_id)
  with ne r show ?thesis by (cases "takeWhile is_digit s") auto
qed

function tokenize :: "string \<Rightarrow> token list option" where
  "tokenize [] = Some []"
| "tokenize (c # cs) =
     (if json_ws c then tokenize cs
      else if c = CHR ''{'' then map_option ((#) TLBrace) (tokenize cs)
      else if c = CHR ''}'' then map_option ((#) TRBrace) (tokenize cs)
      else if c = CHR ''['' then map_option ((#) TLBracket) (tokenize cs)
      else if c = CHR '']'' then map_option ((#) TRBracket) (tokenize cs)
      else if c = CHR '':'' then map_option ((#) TColon) (tokenize cs)
      else if c = CHR '','' then map_option ((#) TComma) (tokenize cs)
      else if c = CHR 0x22 then
        (case string_body cs of
           None \<Rightarrow> None
         | Some (s, rest) \<Rightarrow> map_option ((#) (TAtom (JStr s))) (tokenize rest))
      else if c = CHR ''-'' then
        (case number_body cs of
           None \<Rightarrow> None
         | Some (n, rest) \<Rightarrow> map_option ((#) (TAtom (JNum (- int n)))) (tokenize rest))
      else if is_digit c then
        (case number_body (c # cs) of
           None \<Rightarrow> None
         | Some (n, rest) \<Rightarrow> map_option ((#) (TAtom (JNum (int n)))) (tokenize rest))
      else if c = CHR ''t'' \<and> take 3 cs = ''rue'' then
        map_option ((#) (TAtom (JBool True))) (tokenize (drop 3 cs))
      else if c = CHR ''f'' \<and> take 4 cs = ''alse'' then
        map_option ((#) (TAtom (JBool False))) (tokenize (drop 4 cs))
      else if c = CHR ''n'' \<and> take 3 cs = ''ull'' then
        map_option ((#) (TAtom JNull)) (tokenize (drop 3 cs))
      else None)"
  by pat_completeness auto
termination
  by (relation "measure length")
     (auto dest: string_body_length number_body_length)

text \<open>
  The second pass runs a stack automaton over the tokens. A frame is an array or an
  object under construction (an object frame holds the key whose value is being read).
  A property that occurs twice keeps its first place and takes the last value, as in
  JavaScript.
\<close>

datatype frame = FArr "json list" | FObj "(string \<times> json) list" string

datatype pstate =
    SValue "frame list"
  | SArrFirst "frame list"
  | SArrNext "json list" "frame list"
  | SObjFirst "frame list"
  | SObjKey "(string \<times> json) list" "frame list"
  | SObjColon "(string \<times> json) list" string "frame list"
  | SObjNext "(string \<times> json) list" "frame list"
  | SDone json

fun deliver :: "json \<Rightarrow> frame list \<Rightarrow> pstate" where
  "deliver v [] = SDone v"
| "deliver v (FArr xs # st) = SArrNext (xs @ [v]) st"
| "deliver v (FObj kvs k # st) = SObjNext (AList.update k v kvs) st"

definition value_token :: "frame list \<Rightarrow> token \<Rightarrow> pstate option" where
  "value_token st t =
     (case t of
        TAtom v \<Rightarrow> Some (deliver v st)
      | TLBracket \<Rightarrow> Some (SArrFirst st)
      | TLBrace \<Rightarrow> Some (SObjFirst st)
      | _ \<Rightarrow> None)"

definition key_token :: "(string \<times> json) list \<Rightarrow> frame list \<Rightarrow> token \<Rightarrow> pstate option" where
  "key_token kvs st t =
     (case t of
        TAtom (JStr k) \<Rightarrow> Some (SObjColon kvs k st)
      | _ \<Rightarrow> None)"

fun step :: "pstate \<Rightarrow> token \<Rightarrow> pstate option" where
  "step (SValue st) t = value_token st t"
| "step (SArrFirst st) t =
     (if t = TRBracket then Some (deliver (JArr []) st) else value_token (FArr [] # st) t)"
| "step (SArrNext xs st) t =
     (if t = TComma then Some (SValue (FArr xs # st))
      else if t = TRBracket then Some (deliver (JArr xs) st)
      else None)"
| "step (SObjFirst st) t =
     (if t = TRBrace then Some (deliver (JObj []) st) else key_token [] st t)"
| "step (SObjKey kvs st) t = key_token kvs st t"
| "step (SObjColon kvs k st) t =
     (if t = TColon then Some (SValue (FObj kvs k # st)) else None)"
| "step (SObjNext kvs st) t =
     (if t = TComma then Some (SObjKey kvs st)
      else if t = TRBrace then Some (deliver (JObj kvs) st)
      else None)"
| "step (SDone v) t = None"

fun run :: "pstate \<Rightarrow> token list \<Rightarrow> pstate option" where
  "run st [] = Some st"
| "run st (t # ts) = (case step st t of None \<Rightarrow> None | Some st' \<Rightarrow> run st' ts)"

definition json_of_string :: "string \<Rightarrow> json option" where
  "json_of_string text =
     (case tokenize text of
        None \<Rightarrow> None
      | Some ts \<Rightarrow> (case run (SValue []) ts of Some (SDone v) \<Rightarrow> Some v | _ \<Rightarrow> None))"




fun join :: "string \<Rightarrow> string list \<Rightarrow> string" where
  "join sep [] = []"
| "join sep [x] = x"
| "join sep (x # y # ys) = x @ sep @ join sep (y # ys)"


text \<open>
  \<^verbatim>\<open>JSON.parse(text)\<close>: the value, or a \<^verbatim>\<open>SyntaxError\<close> with the engine's text.
\<close>

definition JSON_parse :: "string \<Rightarrow> string \<Rightarrow> js_error + json" where
  "JSON_parse smsg text =
     (case json_of_string text of
        None \<Rightarrow> Inl (JsSyntaxError smsg)
      | Some v \<Rightarrow> Inr v)"

section \<open>lib/llm.js: the provider layer\<close>

text \<open>
  \<^verbatim>\<open>raw.match(/```(?:json)?\s*([\s\S]*?)```/)\<close>, the first capture group. The pattern
  matches at the first fence (three backquotes) of the text: the optional \<^verbatim>\<open>json\<close> and
  the white space after it are taken greedily, the group is lazy and so ends where the next
  fence starts. Giving back \<^verbatim>\<open>json\<close> or white space never finds a closing fence that was
  not found before (a fence has neither letters nor white space), and a later start has
  its closing fence after the first fence too; so there is a match exactly when a fence
  follows the stripped text, and this function returns the group of that match.
\<close>

definition fence :: string where
  "fence = [CHR 0x60, CHR 0x60, CHR 0x60]"

fun after_fence :: "string \<Rightarrow> string option" where
  "after_fence [] = None"
| "after_fence (c # cs) =
     (if take 3 (c # cs) = fence then Some (drop 3 (c # cs)) else after_fence cs)"

fun before_fence :: "string \<Rightarrow> string option" where
  "before_fence [] = None"
| "before_fence (c # cs) =
     (if take 3 (c # cs) = fence then Some [] else map_option ((#) c) (before_fence cs))"

definition codeBlockMatch :: "string \<Rightarrow> string option" where
  "codeBlockMatch raw =
     (case after_fence raw of
        None \<Rightarrow> None
      | Some r1 \<Rightarrow>
          before_fence
            (dropWhile js_space (if take 4 r1 = ''json'' then drop 4 r1 else r1)))"

text \<open>
  \<^verbatim>\<open>parseQuizJSON\<close> (lines 28 to 39). The \<^verbatim>\<open>SyntaxError\<close> of the first attempt is
  caught and dropped; the one of the second attempt leaves the function.
\<close>

definition parseQuizJSON :: "string \<Rightarrow> string \<Rightarrow> js_error + json" where
  "parseQuizJSON smsg raw =
     (case JSON_parse smsg raw of
        Inr v \<Rightarrow> Inr v
      | Inl e \<Rightarrow>
          (case codeBlockMatch raw of
             Some inner \<Rightarrow> JSON_parse smsg (js_trim inner)
           | None \<Rightarrow> Inl (JsError ''Failed to parse quiz response as JSON'')))"

text \<open>
  What one HTTP exchange with a provider comes to: \<^verbatim>\<open>fetch\<close>, the decoding of the body or
  the access to the payload throws; the response is not ok, with its status and the text
  of its body (empty when the body cannot be read); or the response is ok and its payload
  carries a text (\<^verbatim>\<open>data.response\<close>, \<^verbatim>\<open>data.choices[0].message.content\<close>,
  \<^verbatim>\<open>data.content[0].text\<close>). The text is taken to be a string, as the three providers
  document it. The request itself (URL, headers, prompt) does not enter the result and is
  left out.
\<close>

datatype reply =
    RequestFailed js_error
  | HttpError nat string
  | HttpText string

definition generateWithOllama :: "reply \<Rightarrow> js_error + string" where
  "generateWithOllama r =
     (case r of
        RequestFailed e \<Rightarrow> Inl e
      | HttpError status errorText \<Rightarrow>
          Inl (JsError (''Ollama request failed ('' @ show_nat status @ ''): '' @ errorText))
      | HttpText raw \<Rightarrow> Inr raw)"

definition generateWithOpenAI :: "reply \<Rightarrow> js_error + string" where
  "generateWithOpenAI r =
     (case r of
        RequestFailed e \<Rightarrow> Inl e
      | HttpError status errorText \<Rightarrow>
          Inl (JsError (''OpenAI request failed ('' @ show_nat status @ ''): '' @ errorText))
      | HttpText raw \<Rightarrow> Inr raw)"

definition generateWithAnthropic :: "reply \<Rightarrow> js_error + string" where
  "generateWithAnthropic r =
     (case r of
        RequestFailed e \<Rightarrow> Inl e
      | HttpError status errorText \<Rightarrow>
          Inl (JsError (''Anthropic request failed ('' @ show_nat status @ ''): '' @ errorText))
      | HttpText raw \<Rightarrow> Inr raw)"

text \<open>
  The settings the quiz flow reads: the provider's name and the maximum number of
  questions. Keys, models and URLs only shape the request.
\<close>

record settings =
  provider :: string
  maxQuestions :: nat

text \<open>The constructor of \<^verbatim>\<open>LLMProvider\<close>: \<^verbatim>\<open>settings.provider || 'ollama'\<close>.\<close>

definition llm_provider :: "settings \<Rightarrow> string" where
  "llm_provider st = (if provider st = [] then ''ollama'' else provider st)"

definition dispatch :: "settings \<Rightarrow> reply \<Rightarrow> js_error + string" where
  "dispatch st r =
     (if llm_provider st = ''ollama'' then generateWithOllama r
      else if llm_provider st = ''openai'' then generateWithOpenAI r
      else if llm_provider st = ''anthropic'' then generateWithAnthropic r
      else Inl (JsError (''Unknown provider: '' @ llm_provider st)))"

text \<open>\<^verbatim>\<open>LLMProvider.generateQuiz\<close>: the switch on the provider, then \<^verbatim>\<open>parseQuizJSON\<close>.\<close>

definition generateQuiz :: "string \<Rightarrow> settings \<Rightarrow> reply \<Rightarrow> js_error + json" where
  "generateQuiz smsg st r =
     (case dispatch st r of
        Inl e \<Rightarrow> Inl e
      | Inr raw \<Rightarrow> parseQuizJSON smsg raw)"

text \<open>
  \<^verbatim>\<open>LLMProvider.generateExplanations\<close> first formats the questions:
  \<^verbatim>\<open>questions.map(...)\<close> with \<^verbatim>\<open>q.options.map(...)\<close> for each question. This throws a
  \<^verbatim>\<open>TypeError\<close> unless \<^verbatim>\<open>questions\<close> is an array of objects whose \<^verbatim>\<open>options\<close> is an
  array.
\<close>

fun has_options :: "json \<Rightarrow> bool" where
  "has_options (JObj kvs) = (case map_of kvs ''options'' of Some (JArr ops) \<Rightarrow> True | _ \<Rightarrow> False)"
| "has_options v = False"

fun formattable :: "json \<Rightarrow> bool" where
  "formattable (JArr qs) = list_all has_options qs"
| "formattable v = False"

definition generateExplanations ::
    "string \<Rightarrow> string \<Rightarrow> settings \<Rightarrow> reply \<Rightarrow> json \<Rightarrow> js_error + json" where
  "generateExplanations smsg tmsg st r questions =
     (if \<not> formattable questions then Inl (JsTypeError tmsg)
      else case dispatch st r of
        Inl e \<Rightarrow> Inl e
      | Inr raw \<Rightarrow> parseQuizJSON smsg raw)"

section \<open>The quiz session in \<^verbatim>\<open>chrome.storage.local\<close>\<close>

text \<open>
  background.js, lines 3 to 10 and \<^verbatim>\<open>getQuizSession\<close>: the seven keys of the session.
  A key that was never written reads as its default, so the record always holds a value.
  An answer slot in storage is a number or null: the message and the store are JSON, in
  which the undefined slot of an array becomes null.
\<close>

datatype quiz_state = QIdle | QGenerating | QReady | QInProgress | QCompleted | QError

datatype answer = Null | Index nat

record session =
  quizState :: quiz_state
  quizData :: json
  quizCurrentQuestion :: nat
  quizUserAnswers :: "answer list"
  quizError :: "string option"
  quizSourceText :: "string option"
  quizExplanations :: "json list option"

definition clearQuizSession :: "session \<Rightarrow> session" where
  "clearQuizSession s =
     \<lparr> quizState = QIdle, quizData = JNull, quizCurrentQuestion = 0, quizUserAnswers = [],
       quizError = None, quizSourceText = None, quizExplanations = None \<rparr>"

section \<open>background.js: the orchestrator\<close>

text \<open>
  The page as the two extractors see it. An element has an identity, the computed style
  and the bounding box that \<^verbatim>\<open>isHiddenOrTiny\<close> reads, its \<^verbatim>\<open>innerText\<close>, the number of
  its child elements, and the \<^verbatim>\<open>innerText\<close> of its copy once \<^verbatim>\<open>extractPageText\<close> has
  removed the excluded descendants. The page gives, for a selector, the elements that
  match it in document order (\<^verbatim>\<open>querySelectorAll\<close>; \<^verbatim>\<open>querySelector\<close> is the first of
  them), and its body. Lengths and quotients are exact rationals where JavaScript has
  floating point numbers.
\<close>

record element =
  node :: nat
  displayNone :: bool
  visibilityHidden :: bool
  rectWidth :: rat
  rectHeight :: rat
  innerText :: string
  childCount :: nat
  prunedText :: string

record page =
  matching :: "string \<Rightarrow> element list"
  body :: element

text \<open>\<^verbatim>\<open>text.replace(/\s+/g, ' ')\<close> and \<^verbatim>\<open>cleaned.split(/\s+/).filter(Boolean)\<close>.\<close>

function collapse_ws :: "string \<Rightarrow> string" where
  "collapse_ws [] = []"
| "collapse_ws (c # cs) =
     (if js_space c then CHR 0x20 # collapse_ws (dropWhile js_space cs)
      else c # collapse_ws cs)"
  by pat_completeness auto
termination
  by (relation "measure length") (auto simp: less_Suc_eq_le length_dropWhile_le)

function js_words :: "string \<Rightarrow> string list" where
  "js_words [] = []"
| "js_words (c # cs) =
     (if js_space c then js_words cs
      else (c # takeWhile (\<lambda>x. \<not> js_space x) cs) # js_words (dropWhile (\<lambda>x. \<not> js_space x) cs))"
  by pat_completeness auto
termination
  by (relation "measure length") (auto simp: less_Suc_eq_le length_dropWhile_le)

text \<open>
  \<^verbatim>\<open>extractPageText\<close> (lines 53 to 86), the function the handler injects: the root is
  the first element of the first selector that matches anything, else the body.
\<close>

definition page_selectors :: "string list" where
  \<open>page_selectors =
     [''article'', ''[role="main"]'', ''main'', ''.post-content'', ''.article-content'',
      ''.entry-content'']\<close>

fun first_match :: "page \<Rightarrow> string list \<Rightarrow> element option" where
  "first_match pg [] = None"
| "first_match pg (sel # sels) =
     (case matching pg sel of [] \<Rightarrow> first_match pg sels | el # els \<Rightarrow> Some el)"

definition page_root :: "page \<Rightarrow> element" where
  "page_root pg = (case first_match pg page_selectors of None \<Rightarrow> body pg | Some el \<Rightarrow> el)"

definition extractPageText :: "page \<Rightarrow> string \<times> nat" where
  "extractPageText pg =
     (let cleaned = js_trim (collapse_ws (prunedText (page_root pg)))
      in (cleaned, length (js_words cleaned)))"

text \<open>
  \<^verbatim>\<open>quiz.questions\<close> and \<^verbatim>\<open>quiz.questions.length\<close>. Reading a property of null or of
  undefined throws a \<^verbatim>\<open>TypeError\<close>; a value that is not an object has no property
  \<^verbatim>\<open>questions\<close> (undefined, \<open>None\<close>). The length of an array is the number of its
  elements and that of a string the number of its code units; an object has the length
  it holds under that name; a number and a boolean have none.
\<close>

fun get_questions :: "string \<Rightarrow> json \<Rightarrow> js_error + json option" where
  "get_questions tmsg JNull = Inl (JsTypeError tmsg)"
| "get_questions tmsg (JObj kvs) = Inr (map_of kvs ''questions'')"
| "get_questions tmsg v = Inr None"

fun length_of :: "string \<Rightarrow> json option \<Rightarrow> js_error + json option" where
  "length_of tmsg None = Inl (JsTypeError tmsg)"
| "length_of tmsg (Some JNull) = Inl (JsTypeError tmsg)"
| "length_of tmsg (Some (JArr xs)) = Inr (Some (JNum (int (length xs))))"
| "length_of tmsg (Some (JStr s)) = Inr (Some (JNum (int (length s))))"
| "length_of tmsg (Some (JObj kvs)) = Inr (map_of kvs ''length'')"
| "length_of tmsg (Some v) = Inr None"

definition questions_length :: "string \<Rightarrow> json \<Rightarrow> js_error + json option" where
  "questions_length tmsg q =
     (case get_questions tmsg q of
        Inl e \<Rightarrow> Inl e
      | Inr qs \<Rightarrow> length_of tmsg qs)"

text \<open>
  A value inside a template literal: \<^verbatim>\<open>String(value)\<close>. An array is its elements joined
  by commas, null elements left empty; an object is \<^verbatim>\<open>[object Object]\<close>.
\<close>

fun js_string :: "json \<Rightarrow> string" where
  "js_string JNull = ''null''"
| "js_string (JBool b) = (if b then ''true'' else ''false'')"
| "js_string (JNum i) = show_int i"
| "js_string (JStr s) = s"
| "js_string (JArr xs) = join '','' (map (\<lambda>x. if x = JNull then [] else js_string x) xs)"
| "js_string (JObj kvs) = ''[object Object]''"

definition template :: "json option \<Rightarrow> string" where
  "template v = (case v of None \<Rightarrow> ''undefined'' | Some x \<Rightarrow> js_string x)"

text \<open>
  What the handler meets outside the session: the active tab (its id, if there is one),
  the outcome of injecting \<^verbatim>\<open>extractPageText\<close> into it (the injection throws, gives no
  result, or gives the text and the word count that \<^verbatim>\<open>extractPageText\<close> returns), the
  stored settings, the provider's reply to the quiz request, and the texts the engine
  gives its own errors. The store and the notifications are taken not to fail.
\<close>

datatype injection =
    InjectionFailed js_error
  | NoResult
  | Extracted string nat

record env =
  activeTab :: "nat option"
  injected :: injection
  storedSettings :: settings
  quizReply :: reply
  syntaxMessage :: string
  typeMessage :: string

text \<open>
  What the handler leaves behind: the session, the answers given through
  \<^verbatim>\<open>sendResponse\<close>, the calls \<^verbatim>\<open>llm.generateQuiz(text, questionCount)\<close> and
  \<^verbatim>\<open>generateExplanationsInBackground(llm, text, questions)\<close> it made, and the
  notifications it created (id and message), each list in the order of the events.
\<close>

datatype response = Accepted quiz_state | Refused string

record world =
  store :: session
  responses :: "response list"
  generateCalls :: "(string \<times> nat) list"
  explanationCalls :: "(string \<times> json) list"
  notifications :: "(string \<times> string) list"

text \<open>Lines 131 to 134: \<^verbatim>\<open>settings.maxQuestions || 15\<close> replaces a zero by 15.\<close>

definition questionCount :: "nat \<Rightarrow> nat \<Rightarrow> nat" where
  "questionCount wordCount maxQ =
     min (max (wordCount div 150) 3) (if maxQ = 0 then 15 else maxQ)"

text \<open>The three early exits share their shape: store the error, answer the popup.\<close>

definition refuse :: "string \<Rightarrow> world \<Rightarrow> world" where
  "refuse msg w =
     w\<lparr> store := (store w)\<lparr>quizState := QError, quizError := Some msg\<rparr>,
        responses := responses w @ [Refused msg] \<rparr>"

text \<open>The \<^verbatim>\<open>catch\<close> block, lines 158 to 169.\<close>

definition caught :: "js_error \<Rightarrow> world \<Rightarrow> world" where
  "caught e w =
     w\<lparr> store := (store w)\<lparr>quizState := QError, quizError := Some (message e)\<rparr>,
        notifications := notifications w @
          [(''quiz-error'', ''Quiz generation failed: '' @ message e)] \<rparr>"

definition ready_message :: "json option \<Rightarrow> string" where
  "ready_message len = ''Your quiz is ready! '' @ template len @ '' questions generated.''"

text \<open>
  \<^verbatim>\<open>handleGenerateQuiz\<close> (lines 88 to 170). The session is never read. A tab id of 0 is
  falsy, like a missing tab. The explanation request is only launched here; what it does
  to the session when it comes back is \<open>generateExplanationsInBackground\<close>.
\<close>

definition handleGenerateQuiz :: "env \<Rightarrow> world \<Rightarrow> world" where
  "handleGenerateQuiz ev w =
     (if activeTab ev = None \<or> activeTab ev = Some 0 then refuse ''No active tab found'' w
      else
       (case injected ev of
          InjectionFailed e \<Rightarrow> caught e w
        | NoResult \<Rightarrow> refuse ''Failed to extract text from page'' w
        | Extracted text wordCount \<Rightarrow>
           (if wordCount < 50 then refuse ''Not enough readable content on this page'' w
            else
             (let w1 = w\<lparr> store := (store w)
                          \<lparr> quizState := QGenerating, quizData := JNull,
                            quizCurrentQuestion := 0, quizUserAnswers := [],
                            quizError := None, quizSourceText := Some text,
                            quizExplanations := None \<rparr>,
                        responses := responses w @ [Accepted QGenerating] \<rparr>;
                  n = questionCount wordCount (maxQuestions (storedSettings ev));
                  w2 = w1\<lparr> generateCalls := generateCalls w1 @ [(text, n)] \<rparr>
              in
               (case generateQuiz (syntaxMessage ev) (storedSettings ev) (quizReply ev) of
                  Inl e \<Rightarrow> caught e w2
                | Inr q \<Rightarrow>
                   (let w3 = w2\<lparr> store := (store w2)
                                \<lparr> quizState := QReady, quizData := q,
                                  quizCurrentQuestion := 0, quizUserAnswers := [],
                                  quizError := None \<rparr> \<rparr>
                    in
                     (case questions_length (typeMessage ev) q of
                        Inl e \<Rightarrow> caught e w3
                      | Inr len \<Rightarrow>
                          w3\<lparr> notifications := notifications w3 @
                                 [(''quiz-ready'', ready_message len)],
                               explanationCalls := explanationCalls w3 @
                                 [(text, (case get_questions (typeMessage ev) q of
                                            Inr (Some qs) \<Rightarrow> qs
                                          | _ \<Rightarrow> JNull))] \<rparr>)))))))"

text \<open>
  \<^verbatim>\<open>generateExplanationsInBackground\<close> (lines 172 to 182), applied to the session as it
  is when the explanation request comes back.
\<close>

definition generateExplanationsInBackground ::
    "string \<Rightarrow> string \<Rightarrow> settings \<Rightarrow> reply \<Rightarrow> json \<Rightarrow> session \<Rightarrow> session" where
  "generateExplanationsInBackground smsg tmsg st r questions s =
     (case generateExplanations smsg tmsg st r questions of
        Inl e \<Rightarrow> s
      | Inr (JObj kvs) \<Rightarrow>
          (case map_of kvs ''explanations'' of
             Some (JArr xs) \<Rightarrow> s\<lparr>quizExplanations := Some xs\<rparr>
           | _ \<Rightarrow> s)
      | Inr v \<Rightarrow> s)"

text \<open>
  \<^verbatim>\<open>handleSaveProgress\<close>: each field of the message that is not undefined overwrites its
  key; the other keys stay.
\<close>

record progress_message =
  msgState :: "quiz_state option"
  msgCurrentQuestion :: "nat option"
  msgUserAnswers :: "answer list option"

definition handleSaveProgress :: "progress_message \<Rightarrow> session \<Rightarrow> session" where
  "handleSaveProgress m s =
     (let s1 = (case msgCurrentQuestion m of None \<Rightarrow> s | Some q \<Rightarrow> s\<lparr>quizCurrentQuestion := q\<rparr>);
          s2 = (case msgUserAnswers m of None \<Rightarrow> s1 | Some a \<Rightarrow> s1\<lparr>quizUserAnswers := a\<rparr>);
          s3 = (case msgState m of None \<Rightarrow> s2 | Some st \<Rightarrow> s2\<lparr>quizState := st\<rparr>)
      in s3)"

section \<open>The content script: choosing the container\<close>

text \<open>
  \<^verbatim>\<open>isHiddenOrTiny\<close>, \<^verbatim>\<open>scoreElement\<close> and \<^verbatim>\<open>findContentContainer\<close>. The inner loop
  is \<open>scan\<close>: it carries \<^verbatim>\<open>best\<close> and \<^verbatim>\<open>bestScore\<close> over the candidates of one
  selector; the outer loop carries them over the selectors.
\<close>

definition content_selectors :: "string list" where
  \<open>content_selectors =
     [''article'', ''main'', ''[role="main"]'', ''.content'', ''.post'', ''.article'',
      ''.entry-content'']\<close>

definition isHiddenOrTiny :: "element \<Rightarrow> bool" where
  "isHiddenOrTiny el =
     (displayNone el \<or> visibilityHidden el \<or> rectWidth el < 50 \<or> rectHeight el < 50)"

definition scoreElement :: "element \<Rightarrow> rat" where
  "scoreElement el =
     of_nat (length (js_trim (innerText el))) /
     of_nat (if childCount el = 0 then 1 else childCount el)"

fun scan :: "element list \<Rightarrow> element option \<times> rat \<Rightarrow> element option \<times> rat" where
  "scan [] acc = acc"
| "scan (el # els) acc =
     scan els
       (if isHiddenOrTiny el then acc
        else if scoreElement el > snd acc then (Some el, scoreElement el)
        else acc)"

definition findContentContainer :: "page \<Rightarrow> element" where
  "findContentContainer pg =
     (case fst (foldl (\<lambda>acc sel. scan (matching pg sel) acc) (None, 0) content_selectors) of
        None \<Rightarrow> body pg
      | Some el \<Rightarrow> el)"

section \<open>popup.js\<close>

text \<open>
  popup.js keeps the quiz, the index of the question on display and the answers in three
  globals. \<^verbatim>\<open>userAnswers\<close> is a JavaScript array: a slot is undefined (\<open>None\<close>) when it
  lies past the end or was never assigned. Rendering changes the page only and is left out;
  \<^verbatim>\<open>saveProgress\<close> sends its message to the background, whose handler stores it.
\<close>

record popup =
  quiz :: json
  currentQuestion :: nat
  userAnswers :: "answer option list"

definition js_index :: "'a option list \<Rightarrow> nat \<Rightarrow> 'a option" where
  "js_index xs i = (if i < length xs then xs ! i else None)"

definition js_assign :: "'a option list \<Rightarrow> nat \<Rightarrow> 'a \<Rightarrow> 'a option list" where
  "js_assign xs i v =
     (if i < length xs then xs[i := Some v]
      else xs @ replicate (i - length xs) None @ [Some v])"

definition stored_answers :: "answer option list \<Rightarrow> answer list" where
  "stored_answers xs = map (\<lambda>a. case a of None \<Rightarrow> Null | Some v \<Rightarrow> v) xs"

definition saveProgress :: "quiz_state \<Rightarrow> nat \<Rightarrow> answer option list \<Rightarrow> session \<Rightarrow> session" where
  "saveProgress st question answers s =
     handleSaveProgress
       \<lparr> msgState = Some st, msgCurrentQuestion = Some question,
         msgUserAnswers = Some (stored_answers answers) \<rparr> s"

text \<open>
  \<^verbatim>\<open>restoreSession\<close>, run on every opening of the popup: the switch on the stored state.
  Only the case \<^verbatim>\<open>'ready'\<close> writes to the session.
\<close>

definition restoreSession :: "popup \<Rightarrow> session \<Rightarrow> popup \<times> session" where
  "restoreSession p s =
     (case quizState s of
        QReady \<Rightarrow>
          (p\<lparr>quiz := quizData s, currentQuestion := 0, userAnswers := []\<rparr>,
           saveProgress QInProgress 0 [] s)
      | QInProgress \<Rightarrow>
          (p\<lparr>quiz := quizData s, currentQuestion := quizCurrentQuestion s,
             userAnswers := map Some (quizUserAnswers s)\<rparr>, s)
      | QCompleted \<Rightarrow>
          (p\<lparr>quiz := quizData s, userAnswers := map Some (quizUserAnswers s)\<rparr>, s)
      | _ \<Rightarrow> (p, s))"

text \<open>One tick of the timer that \<^verbatim>\<open>pollForQuizReady\<close> starts.\<close>

definition pollForQuizReady :: "popup \<Rightarrow> session \<Rightarrow> popup \<times> session" where
  "pollForQuizReady p s =
     (if quizState s = QReady then
        (p\<lparr>quiz := quizData s, currentQuestion := 0, userAnswers := []\<rparr>,
         saveProgress QInProgress 0 [] s)
      else (p, s))"

definition selectOption :: "nat \<Rightarrow> popup \<Rightarrow> session \<Rightarrow> popup \<times> session" where
  "selectOption i p s =
     (let answers = js_assign (userAnswers p) (currentQuestion p) (Index i)
      in (p\<lparr>userAnswers := answers\<rparr>, saveProgress QInProgress (currentQuestion p) answers s))"

text \<open>
  The test \<^verbatim>\<open>currentQuestion < quiz.questions.length - 1\<close> of \<^verbatim>\<open>nextQuestion\<close>. A
  length that is a number is compared as it is. Undefined and an object become NaN, null
  and a boolean become 0 or 1: the test is false. The numeric value of a string or of an
  array is outside this model (\<open>None\<close>); it can only arise when \<^verbatim>\<open>questions\<close> is an
  object with a property \<^verbatim>\<open>length\<close>.
\<close>

fun before_last :: "nat \<Rightarrow> json option \<Rightarrow> bool option" where
  "before_last i (Some (JNum n)) = Some (int i < n - 1)"
| "before_last i (Some (JStr s)) = None"
| "before_last i (Some (JArr xs)) = None"
| "before_last i v = Some False"

text \<open>
  \<^verbatim>\<open>nextQuestion\<close> (lines 237 to 248). A \<^verbatim>\<open>TypeError\<close> from
  \<^verbatim>\<open>quiz.questions.length\<close> ends the handler before anything has changed. The result is
  \<open>None\<close> where the test is outside the model.
\<close>

definition nextQuestion ::
    "string \<Rightarrow> popup \<Rightarrow> session \<Rightarrow> (js_error + popup \<times> session) option" where
  "nextQuestion tmsg p s =
     (if js_index (userAnswers p) (currentQuestion p) = None then Some (Inr (p, s))
      else
       (case questions_length tmsg (quiz p) of
          Inl e \<Rightarrow> Some (Inl e)
        | Inr len \<Rightarrow>
           (case before_last (currentQuestion p) len of
              None \<Rightarrow> None
            | Some True \<Rightarrow>
                Some (Inr (p\<lparr>currentQuestion := currentQuestion p + 1\<rparr>,
                  saveProgress QInProgress (currentQuestion p + 1) (userAnswers p) s))
            | Some False \<Rightarrow>
                Some (Inr (p, saveProgress QCompleted (currentQuestion p) (userAnswers p) s)))))"

definition redoQuiz :: "popup \<Rightarrow> session \<Rightarrow> popup \<times> session" where
  "redoQuiz p s =
     (p\<lparr>currentQuestion := 0, userAnswers := []\<rparr>, saveProgress QInProgress 0 [] s)"

text \<open>
  \<^verbatim>\<open>showResults\<close>, line 308: the explanation shown for question \<open>i\<close>,
  \<^verbatim>\<open>(detailedExplanations && detailedExplanations[i]) || q.explanation || ''\<close>, where
  \<^verbatim>\<open>detailedExplanations\<close> is the stored \<^verbatim>\<open>quizExplanations\<close>. An undefined operand is
  \<open>None\<close>. The question \<open>q\<close> is not null here: line 255 has read \<^verbatim>\<open>q.correctIndex\<close>.
\<close>

fun truthy :: "json option \<Rightarrow> bool" where
  "truthy None = False"
| "truthy (Some JNull) = False"
| "truthy (Some (JBool b)) = b"
| "truthy (Some (JNum i)) = (i \<noteq> 0)"
| "truthy (Some (JStr s)) = (s \<noteq> [])"
| "truthy (Some v) = True"

fun property :: "json \<Rightarrow> string \<Rightarrow> json option" where
  "property (JObj kvs) k = map_of kvs k"
| "property v k = None"

definition explanation_shown :: "json list option \<Rightarrow> nat \<Rightarrow> json \<Rightarrow> json" where
  "explanation_shown detailed i q =
     (let d = (case detailed of
                 None \<Rightarrow> None
               | Some xs \<Rightarrow> if i < length xs then Some (xs ! i) else None)
      in case (if truthy d then d
               else if truthy (property q ''explanation'') then property q ''explanation''
               else None) of
           None \<Rightarrow> JStr []
         | Some v \<Rightarrow> v)"

section \<open>Notions of the specification\<close>

text \<open>
  The specification's \<open>clamp(x, lo, hi)\<close>, in its own words: \<open>x\<close>, floored at \<open>lo\<close> and
  capped by \<open>hi\<close>.
\<close>

definition clamp :: "nat \<Rightarrow> nat \<Rightarrow> nat \<Rightarrow> nat" where
  "clamp x lo hi = (if x < lo then lo else if hi < x then hi else x)"

text \<open>
  The specification's invariant of a question, \<open>options.length == 4\<close> and
  \<open>0 \<le> correctIndex < 4\<close>, and of a quiz document: \<^verbatim>\<open>questions\<close> is an array of such
  questions.
\<close>

definition question_ok :: "json \<Rightarrow> bool" where
  "question_ok q =
     ((case property q ''options'' of Some (JArr ops) \<Rightarrow> length ops = 4 | _ \<Rightarrow> False) \<and>
      (case property q ''correctIndex'' of Some (JNum i) \<Rightarrow> 0 \<le> i \<and> i < 4 | _ \<Rightarrow> False))"

definition quiz_ok :: "json \<Rightarrow> bool" where
  "quiz_ok d =
     (case property d ''questions'' of Some (JArr qs) \<Rightarrow> list_all question_ok qs | _ \<Rightarrow> False)"

text \<open>
  The candidates of \<^verbatim>\<open>findContentContainer\<close>, in the order its two loops visit them.
\<close>

definition candidates :: "page \<Rightarrow> element list" where
  "candidates pg = concat (map (matching pg) content_selectors)"


section \<open>Auxiliary notions of the proofs\<close>



definition delimited :: "string \<Rightarrow> bool" where
  "delimited rest = (case rest of [] \<Rightarrow> True | c # cs \<Rightarrow> \<not> is_digit c)"


section \<open>Example inputs\<close>

text \<open>Concrete values on which the theorems below are instantiated.\<close>

definition two_questions :: json where
  "two_questions = JObj [(''questions'', JArr [JObj [], JObj []])]"

definition fresh_session :: session where
  "fresh_session =
     \<lparr> quizState = QInProgress, quizData = two_questions, quizCurrentQuestion = 0,
       quizUserAnswers = [], quizError = None, quizSourceText = Some ''text'',
       quizExplanations = None \<rparr>"

text \<open>A page text of sixty words, and a run of the handler on a tab that shows it.\<close>

definition sixty_words :: string where
  "sixty_words = concat (replicate 59 ''word '') @ ''word''"

definition example_env :: "reply \<Rightarrow> env" where
  "example_env r =
     \<lparr> activeTab = Some 7, injected = Extracted sixty_words 60,
       storedSettings = \<lparr>provider = ''ollama'', maxQuestions = 15\<rparr>,
       quizReply = r, syntaxMessage = ''Unexpected token'',
       typeMessage = ''Cannot read properties of undefined'' \<rparr>"

definition idle_world :: world where
  "idle_world =
     \<lparr> store = \<lparr> quizState = QIdle, quizData = JNull, quizCurrentQuestion = 0,
                 quizUserAnswers = [], quizError = None, quizSourceText = None,
                 quizExplanations = None \<rparr>,
       responses = [], generateCalls = [], explanationCalls = [], notifications = [] \<rparr>"

text \<open>
  The world between lines 137 and 139 of \<^verbatim>\<open>handleGenerateQuiz\<close>: the session says
  \<^verbatim>\<open>'generating'\<close>, the popup has its answer, and the call to the provider is out.
\<close>

definition generating :: "string \<Rightarrow> nat \<Rightarrow> world \<Rightarrow> world" where
  "generating text n w =
     w\<lparr> store := (store w)
          \<lparr> quizState := QGenerating, quizData := JNull,
            quizCurrentQuestion := 0, quizUserAnswers := [],
            quizError := None, quizSourceText := Some text,
            quizExplanations := None \<rparr>,
        responses := responses w @ [Accepted QGenerating],
        generateCalls := generateCalls w @ [(text, n)] \<rparr>"


text \<open>Two provider texts: a quiz that breaks the invariant of a question, and one that keeps it.\<close>

definition bad_quiz_text :: string where
  \<open>bad_quiz_text =
     ''{"questions":[{"question":"q","options":["a"],"correctIndex":7,"explanation":"e"}]}''\<close>

definition one_question :: json where
  "one_question = JArr [JObj [(''question'', JStr ''q''), (''options'', JArr [JStr ''a'']),
       (''correctIndex'', JNum 7), (''explanation'', JStr ''e'')]]"

definition good_quiz_text :: string where
  \<open>good_quiz_text =
     ''{"questions":[{"question":"q","options":["a","b","c","d"],"correctIndex":2,"explanation":"e"}]}''\<close>

definition good_quiz :: json where
  "good_quiz = JObj [(''questions'', JArr [JObj [(''question'', JStr ''q''),
       (''options'', JArr [JStr ''a'', JStr ''b'', JStr ''c'', JStr ''d'']),
       (''correctIndex'', JNum 2), (''explanation'', JStr ''e'')]])]"

text \<open>
  Two pages. On the first, the only candidate is a visible article without text. On the
  second, an article with little text and five children comes before a main region with
  the sixty words and one child.
\<close>

definition region :: "nat \<Rightarrow> string \<Rightarrow> nat \<Rightarrow> element" where
  "region n t c =
     \<lparr> node = n, displayNone = False, visibilityHidden = False, rectWidth = 800,
       rectHeight = 600, innerText = t, childCount = c, prunedText = t \<rparr>"

definition empty_article_page :: page where
  "empty_article_page =
     \<lparr> matching = (\<lambda>sel. if sel = ''article'' then [region 1 [] 0] else []),
       body = region 0 ''Home About Contact'' 3 \<rparr>"

definition two_regions_page :: page where
  "two_regions_page =
     \<lparr> matching = (\<lambda>sel. if sel = ''article'' then [region 1 ''short text'' 5]
                           else if sel = ''main'' then [region 2 sixty_words 1] else []),
       body = region 0 ''Home About Contact'' 3 \<rparr>"



section \<open>Properties of the popup\<close>

lemma saveProgress_fields:
  "saveProgress st q a s =
     s\<lparr>quizCurrentQuestion := q, quizUserAnswers := stored_answers a, quizState := st\<rparr>"
  by (simp add: saveProgress_def handleSaveProgress_def)

text \<open>
  C6. In a popup that shows a quiz whose \<^verbatim>\<open>questions\<close> is an array, and for any stored
  session: \<^verbatim>\<open>nextQuestion\<close> changes nothing, neither in the popup nor in the session,
  when the answer slot of the current question is undefined. When the slot is defined and
  the current question is not the last one, the index grows by one and the state
  \<^verbatim>\<open>'in_progress'\<close> is stored with the new index. When the slot is defined and the
  current question is the last one, the state \<^verbatim>\<open>'completed'\<close> is stored and the index
  stays. (A slot is defined once \<^verbatim>\<open>selectOption\<close> has written to it.)
\<close>

theorem nextQuestion_advance:
  assumes "quiz p = JObj kvs" and "map_of kvs ''questions'' = Some (JArr qs)"
  shows "nextQuestion tmsg p s =
     Some (case js_index (userAnswers p) (currentQuestion p) of
        None \<Rightarrow> Inr (p, s)
      | Some a \<Rightarrow>
          if currentQuestion p + 1 < length qs then
            Inr (p\<lparr>currentQuestion := currentQuestion p + 1\<rparr>,
                 s\<lparr>quizCurrentQuestion := currentQuestion p + 1,
                   quizUserAnswers := stored_answers (userAnswers p),
                   quizState := QInProgress\<rparr>)
          else
            Inr (p, s\<lparr>quizCurrentQuestion := currentQuestion p,
                       quizUserAnswers := stored_answers (userAnswers p),
                       quizState := QCompleted\<rparr>))"
proof -
  have len: "questions_length tmsg (quiz p) = Inr (Some (JNum (int (length qs))))"
    using assms by (simp add: questions_length_def)
  show ?thesis
  proof (cases "js_index (userAnswers p) (currentQuestion p)")
    case None
    then show ?thesis by (simp add: nextQuestion_def)
  next
    case (Some a)
    then show ?thesis
      by (auto simp: nextQuestion_def len saveProgress_fields)
  qed
qed

text \<open>
  The three cases on a quiz of two questions: no answer yet; the first question
  answered; the second and last question answered.
\<close>

theorem nextQuestion_advance_witness:
  "nextQuestion ''t'' \<lparr>quiz = two_questions, currentQuestion = 0, userAnswers = []\<rparr> fresh_session =
     Some (Inr (\<lparr>quiz = two_questions, currentQuestion = 0, userAnswers = []\<rparr>, fresh_session))
   \<and> nextQuestion ''t'' \<lparr>quiz = two_questions, currentQuestion = 0, userAnswers = [Some (Index 2)]\<rparr>
        fresh_session =
     Some (Inr (\<lparr>quiz = two_questions, currentQuestion = 1, userAnswers = [Some (Index 2)]\<rparr>,
          fresh_session\<lparr>quizCurrentQuestion := 1, quizUserAnswers := [Index 2],
            quizState := QInProgress\<rparr>))
   \<and> nextQuestion ''t''
        \<lparr>quiz = two_questions, currentQuestion = 1, userAnswers = [Some (Index 2), Some (Index 0)]\<rparr>
        fresh_session =
     Some (Inr (\<lparr>quiz = two_questions, currentQuestion = 1, userAnswers = [Some (Index 2), Some (Index 0)]\<rparr>,
          fresh_session\<lparr>quizCurrentQuestion := 1, quizUserAnswers := [Index 2, Index 0],
            quizState := QCompleted\<rparr>))"
  using
    nextQuestion_advance [of "\<lparr>quiz = two_questions, currentQuestion = 0, userAnswers = []\<rparr>"
      "[(''questions'', JArr [JObj [], JObj []])]" "[JObj [], JObj []]" "''t''" fresh_session]
    nextQuestion_advance [of "\<lparr>quiz = two_questions, currentQuestion = 0, userAnswers = [Some (Index 2)]\<rparr>"
      "[(''questions'', JArr [JObj [], JObj []])]" "[JObj [], JObj []]" "''t''" fresh_session]
    nextQuestion_advance [of "\<lparr>quiz = two_questions, currentQuestion = 1, userAnswers = [Some (Index 2), Some (Index 0)]\<rparr>"
      "[(''questions'', JArr [JObj [], JObj []])]" "[JObj [], JObj []]" "''t''" fresh_session]
  by (simp add: two_questions_def js_index_def stored_answers_def)

text \<open>
  C10. When the stored state is \<^verbatim>\<open>'ready'\<close>, opening the popup (\<^verbatim>\<open>restoreSession\<close>) and
  a tick of the poll each store \<^verbatim>\<open>'in_progress'\<close> with question index 0 and an empty
  list of answers, by themselves and before any answer is chosen; every other key of the
  session stays. The next opening of the popup therefore finds \<^verbatim>\<open>'in_progress'\<close>.
\<close>

theorem ready_is_consumed:
  assumes "quizState s = QReady"
  shows "snd (restoreSession p s) =
           s\<lparr>quizCurrentQuestion := 0, quizUserAnswers := [], quizState := QInProgress\<rparr>
       \<and> snd (pollForQuizReady p s) =
           s\<lparr>quizCurrentQuestion := 0, quizUserAnswers := [], quizState := QInProgress\<rparr>
       \<and> quizState (snd (restoreSession p' (snd (restoreSession p s)))) = QInProgress
       \<and> quizState (snd (restoreSession p' (snd (pollForQuizReady p s)))) = QInProgress"
  using assms
  by (simp add: restoreSession_def pollForQuizReady_def saveProgress_fields stored_answers_def)

theorem ready_is_consumed_witness:
  "snd (restoreSession \<lparr>quiz = JNull, currentQuestion = 0, userAnswers = []\<rparr>
          (fresh_session\<lparr>quizState := QReady\<rparr>)) = fresh_session
   \<and> snd (pollForQuizReady \<lparr>quiz = JNull, currentQuestion = 0, userAnswers = []\<rparr>
          (fresh_session\<lparr>quizState := QReady\<rparr>)) = fresh_session
   \<and> quizState (snd (restoreSession \<lparr>quiz = JNull, currentQuestion = 0, userAnswers = []\<rparr>
        (snd (restoreSession \<lparr>quiz = JNull, currentQuestion = 0, userAnswers = []\<rparr>
          (fresh_session\<lparr>quizState := QReady\<rparr>))))) = QInProgress"
  using ready_is_consumed [of "fresh_session\<lparr>quizState := QReady\<rparr>"
      "\<lparr>quiz = JNull, currentQuestion = 0, userAnswers = []\<rparr>"
      "\<lparr>quiz = JNull, currentQuestion = 0, userAnswers = []\<rparr>"]
  by (simp add: fresh_session_def restoreSession_def pollForQuizReady_def
      saveProgress_fields stored_answers_def)

text \<open>
  Choosing an option twice for the same question keeps the last choice only: the array
  has the one slot of the current question, holding the second option; the index of the
  current question does not move; and the stored session is the one the second choice
  alone would have left.
\<close>

lemma js_index_assign: "js_index (js_assign xs i v) i = Some v"
  by (auto simp: js_index_def js_assign_def nth_append)

lemma js_assign_twice: "js_assign (js_assign xs i v) i w = js_assign xs i w"
  by (auto simp: js_assign_def nth_append list_update_append)

theorem answer_is_overwritten:
  "fst (selectOption j (fst (selectOption i p s)) (snd (selectOption i p s))) =
     p\<lparr>userAnswers := js_assign (userAnswers p) (currentQuestion p) (Index j)\<rparr>
   \<and> js_index (js_assign (userAnswers p) (currentQuestion p) (Index j)) (currentQuestion p) =
       Some (Index j)
   \<and> snd (selectOption j (fst (selectOption i p s)) (snd (selectOption i p s))) =
       s\<lparr>quizCurrentQuestion := currentQuestion p,
         quizUserAnswers := stored_answers (js_assign (userAnswers p) (currentQuestion p) (Index j)),
         quizState := QInProgress\<rparr>"
  by (simp add: selectOption_def Let_def js_assign_twice js_index_assign saveProgress_fields)

section \<open>Properties of the orchestrator\<close>

text \<open>The handler, path by path.\<close>

lemma handle_no_tab:
  "activeTab ev = None \<or> activeTab ev = Some 0 \<Longrightarrow>
   handleGenerateQuiz ev w = refuse ''No active tab found'' w"
  by (simp add: handleGenerateQuiz_def)

lemma handle_short:
  "activeTab ev = Some t \<Longrightarrow> t \<noteq> 0 \<Longrightarrow> injected ev = Extracted text W \<Longrightarrow> W < 50 \<Longrightarrow>
   handleGenerateQuiz ev w = refuse ''Not enough readable content on this page'' w"
  by (simp add: handleGenerateQuiz_def)

lemma handle_generate_fail:
  "activeTab ev = Some t \<Longrightarrow> t \<noteq> 0 \<Longrightarrow> injected ev = Extracted text W \<Longrightarrow> 50 \<le> W \<Longrightarrow>
   generateQuiz (syntaxMessage ev) (storedSettings ev) (quizReply ev) = Inl e \<Longrightarrow>
   handleGenerateQuiz ev w =
     caught e (generating text (questionCount W (maxQuestions (storedSettings ev))) w)"
  by (simp add: handleGenerateQuiz_def generating_def Let_def split: sum.splits)

lemma handle_generate_ok:
  "activeTab ev = Some t \<Longrightarrow> t \<noteq> 0 \<Longrightarrow> injected ev = Extracted text W \<Longrightarrow> 50 \<le> W \<Longrightarrow>
   generateQuiz (syntaxMessage ev) (storedSettings ev) (quizReply ev) = Inr q \<Longrightarrow>
   handleGenerateQuiz ev w =
     (let w2 = generating text (questionCount W (maxQuestions (storedSettings ev))) w;
          w3 = w2\<lparr> store := (store w2)
                       \<lparr> quizState := QReady, quizData := q,
                         quizCurrentQuestion := 0, quizUserAnswers := [],
                         quizError := None \<rparr> \<rparr>
      in case questions_length (typeMessage ev) q of
           Inl e \<Rightarrow> caught e w3
         | Inr len \<Rightarrow>
             w3\<lparr> notifications := notifications w3 @ [(''quiz-ready'', ready_message len)],
                  explanationCalls := explanationCalls w3 @
                    [(text, (case get_questions (typeMessage ev) q of
                               Inr (Some qs) \<Rightarrow> qs
                             | _ \<Rightarrow> JNull))] \<rparr>)"
  by (simp add: handleGenerateQuiz_def generating_def Let_def split: sum.splits)

lemma generateCalls_handle:
  "generateCalls (handleGenerateQuiz ev w) =
     generateCalls w @
       (if activeTab ev = None \<or> activeTab ev = Some 0 then []
        else case injected ev of
               Extracted text W \<Rightarrow>
                 if W < 50 then [] else [(text, questionCount W (maxQuestions (storedSettings ev)))]
             | _ \<Rightarrow> [])"
  by (auto simp: handleGenerateQuiz_def refuse_def caught_def Let_def
           split: injection.splits sum.splits)


lemma sixty_words_count:
  "extractPageText
     \<lparr> matching = (\<lambda>sel. []),
       body = \<lparr> node = 0, displayNone = False, visibilityHidden = False, rectWidth = 800,
                rectHeight = 600, innerText = sixty_words, childCount = 0,
                prunedText = sixty_words \<rparr> \<rparr> = (sixty_words, 60)"
  by code_simp




text \<open>
  C2. With an active tab, a page of \<open>W \<ge> 50\<close> words and a configured maximum \<open>M \<ge> 3\<close>,
  the handler makes exactly one call \<^verbatim>\<open>llm.generateQuiz(text, n)\<close>, and its \<open>n\<close> is
  \<open>clamp(floor(W / 150), 3, M)\<close>. The three examples of the specification: 1000 words
  and a maximum of 15 give 6, 100 and 15 give 3, 3000 and 5 give 5.
\<close>

theorem question_count_is_clamped:
  assumes "activeTab ev = Some t" and "t \<noteq> 0" and "injected ev = Extracted text W"
    and "50 \<le> W" and "3 \<le> maxQuestions (storedSettings ev)"
  shows "generateCalls (handleGenerateQuiz ev w) =
           generateCalls w @ [(text, clamp (W div 150) 3 (maxQuestions (storedSettings ev)))]
       \<and> questionCount 1000 15 = 6 \<and> questionCount 100 15 = 3 \<and> questionCount 3000 5 = 5"
  using assms by (auto simp: generateCalls_handle questionCount_def clamp_def)

theorem question_count_is_clamped_witness:
  \<open>generateCalls (handleGenerateQuiz (example_env (HttpText ''{"questions":[]}'')) idle_world) =
     [(sixty_words, clamp (60 div 150) 3 15)] \<and> clamp (60 div 150) 3 15 = 3\<close>
  using question_count_is_clamped [of \<open>example_env (HttpText ''{"questions":[]}'')\<close> 7 sixty_words 60
      idle_world]
  by (simp add: example_env_def idle_world_def clamp_def)

text \<open>
  C3. With an active tab and a page of fewer than 50 words, the handler stores the state
  \<^verbatim>\<open>'error'\<close> with the message \<open>Not enough readable content on this page\<close>, answers
  the popup with the same message, and does nothing else: no state \<^verbatim>\<open>'generating'\<close> is
  stored in between and no call to the provider is made.
\<close>

theorem short_page_is_refused:
  assumes "activeTab ev = Some t" and "t \<noteq> 0" and "injected ev = Extracted text W" and "W < 50"
  shows "handleGenerateQuiz ev w =
           w\<lparr> store := (store w)\<lparr>quizState := QError,
                  quizError := Some ''Not enough readable content on this page''\<rparr>,
              responses := responses w @ [Refused ''Not enough readable content on this page''] \<rparr>
       \<and> quizState (store (handleGenerateQuiz ev w)) = QError
       \<and> generateCalls (handleGenerateQuiz ev w) = generateCalls w"
  using assms by (simp add: handle_short refuse_def)

theorem short_page_is_refused_witness:
  "handleGenerateQuiz ((example_env (HttpText [])) \<lparr>injected := Extracted ''too short'' 2\<rparr>) idle_world =
     idle_world\<lparr> store := (store idle_world)\<lparr>quizState := QError,
          quizError := Some ''Not enough readable content on this page''\<rparr>,
        responses := [Refused ''Not enough readable content on this page''] \<rparr>
   \<and> generateCalls (handleGenerateQuiz ((example_env (HttpText [])) \<lparr>injected := Extracted ''too short'' 2\<rparr>)
        idle_world) = []"
  using short_page_is_refused [of "(example_env (HttpText [])) \<lparr>injected := Extracted ''too short'' 2\<rparr>"
      7 "''too short''" 2 idle_world]
  by (simp add: example_env_def idle_world_def)

text \<open>A response that is not ok fails the request, under every provider setting.\<close>

lemma dispatch_http_error:
  "llm_provider st \<in> {''ollama'', ''openai'', ''anthropic''} \<Longrightarrow>
   \<exists>name. dispatch st (HttpError status errorText) =
     Inl (JsError (name @ '' request failed ('' @ show_nat status @ ''): '' @ errorText))"
  by (auto simp: dispatch_def generateWithOllama_def generateWithOpenAI_def
      generateWithAnthropic_def)

lemma dispatch_http_error_fails: "\<exists>e. dispatch st (HttpError status errorText) = Inl e"
  by (auto simp: dispatch_def generateWithOllama_def generateWithOpenAI_def
      generateWithAnthropic_def)

text \<open>
  C4, as the claim states it, fails. The provider answers 200 with the text \<^verbatim>\<open>{}\<close>. It
  parses, so the handler stores it under \<^verbatim>\<open>quizData\<close> with the state \<^verbatim>\<open>'ready'\<close>; only
  then does \<^verbatim>\<open>quiz.questions.length\<close> throw. The \<^verbatim>\<open>catch\<close> block writes the state and
  the message and nothing else: generation has failed, the session says \<^verbatim>\<open>'error'\<close>, and
  the quiz data is still there.
\<close>

theorem retained_quiz_counterexample:
  "quizState (store (handleGenerateQuiz (example_env (HttpText ''{}'')) idle_world)) = QError
   \<and> quizError (store (handleGenerateQuiz (example_env (HttpText ''{}'')) idle_world)) =
       Some ''Cannot read properties of undefined''
   \<and> quizData (store (handleGenerateQuiz (example_env (HttpText ''{}'')) idle_world)) = JObj []
   \<and> quizData (store (handleGenerateQuiz (example_env (HttpText ''{}'')) idle_world)) \<noteq> JNull"
proof -
  have p: "json_of_string ''{}'' = Some (JObj [])"
    by code_simp
  show ?thesis
    by (simp add: handleGenerateQuiz_def example_env_def idle_world_def generateQuiz_def
        dispatch_def llm_provider_def generateWithOllama_def parseQuizJSON_def JSON_parse_def p
        questions_length_def caught_def Let_def)
qed

text \<open>A response that is not ok makes \<^verbatim>\<open>llm.generateQuiz\<close> throw.\<close>

lemma http_error_message:
  assumes r: "quizReply ev = HttpError status errorText"
  shows "\<exists>e. generateQuiz (syntaxMessage ev) (storedSettings ev) (quizReply ev) = Inl e
          \<and> (llm_provider (storedSettings ev) \<in> {''ollama'', ''openai'', ''anthropic''} \<longrightarrow>
               sublist (show_nat status) (message e))"
proof (cases "llm_provider (storedSettings ev) \<in> {''ollama'', ''openai'', ''anthropic''}")
  case True
  then obtain name where
    "dispatch (storedSettings ev) (HttpError status errorText) =
       Inl (JsError (name @ '' request failed ('' @ show_nat status @ ''): '' @ errorText))"
    using dispatch_http_error by blast
  then have "generateQuiz (syntaxMessage ev) (storedSettings ev) (quizReply ev) =
      Inl (JsError ((name @ '' request failed ('') @ show_nat status @ (''): '' @ errorText)))"
    using r by (simp add: generateQuiz_def)
  moreover have "sublist (show_nat status)
      (message (JsError ((name @ '' request failed ('') @ show_nat status @ (''): '' @ errorText))))"
    unfolding message.simps sublist_def by blast
  ultimately show ?thesis
    by blast
next
  case False
  obtain e where "dispatch (storedSettings ev) (HttpError status errorText) = Inl e"
    using dispatch_http_error_fails by blast
  then show ?thesis
    using r False by (auto simp: generateQuiz_def)
qed

lemma show_nat_500: "show_nat 500 = ''500''"
  by code_simp

text \<open>
  C4, amended. With an active tab and a page of at least 50 words, generation fails in
  one of two ways, and in no other: \<^verbatim>\<open>llm.generateQuiz\<close> throws (the request fails, the
  response is not ok, the provider's text does not parse), or its result is stored and
  \<^verbatim>\<open>quiz.questions.length\<close> throws. Either way the session ends in state \<^verbatim>\<open>'error'\<close>
  with the error's message, and a \<^verbatim>\<open>quiz-error\<close> notification carries the message. In
  the first way \<^verbatim>\<open>quizData\<close> is null; in the second it is the value that was parsed. A
  response that is not ok always fails in the first way, and under each of the three
  providers the message contains the decimal digits of the HTTP status.
\<close>

theorem generation_failure_is_reported:
  assumes "activeTab ev = Some t" and "t \<noteq> 0" and "injected ev = Extracted text W" and "50 \<le> W"
  shows "(\<forall>e. generateQuiz (syntaxMessage ev) (storedSettings ev) (quizReply ev) = Inl e \<longrightarrow>
            quizState (store (handleGenerateQuiz ev w)) = QError
          \<and> quizError (store (handleGenerateQuiz ev w)) = Some (message e)
          \<and> quizData (store (handleGenerateQuiz ev w)) = JNull
          \<and> notifications (handleGenerateQuiz ev w) =
              notifications w @ [(''quiz-error'', ''Quiz generation failed: '' @ message e)])
       \<and> (\<forall>q e. generateQuiz (syntaxMessage ev) (storedSettings ev) (quizReply ev) = Inr q \<longrightarrow>
            questions_length (typeMessage ev) q = Inl e \<longrightarrow>
            quizState (store (handleGenerateQuiz ev w)) = QError
          \<and> quizError (store (handleGenerateQuiz ev w)) = Some (message e)
          \<and> quizData (store (handleGenerateQuiz ev w)) = q
          \<and> notifications (handleGenerateQuiz ev w) =
              notifications w @ [(''quiz-error'', ''Quiz generation failed: '' @ message e)])
       \<and> (quizState (store (handleGenerateQuiz ev w)) = QError \<longleftrightarrow>
            (\<exists>e. generateQuiz (syntaxMessage ev) (storedSettings ev) (quizReply ev) = Inl e)
          \<or> (\<exists>q e. generateQuiz (syntaxMessage ev) (storedSettings ev) (quizReply ev) = Inr q
                \<and> questions_length (typeMessage ev) q = Inl e))
       \<and> (\<forall>status errorText. quizReply ev = HttpError status errorText \<longrightarrow>
            (\<exists>e. generateQuiz (syntaxMessage ev) (storedSettings ev) (quizReply ev) = Inl e
               \<and> (llm_provider (storedSettings ev) \<in> {''ollama'', ''openai'', ''anthropic''} \<longrightarrow>
                    sublist (show_nat status) (message e))))"
proof (intro conjI allI impI)
  fix e
  assume "generateQuiz (syntaxMessage ev) (storedSettings ev) (quizReply ev) = Inl e"
  then have h: "handleGenerateQuiz ev w =
      caught e (generating text (questionCount W (maxQuestions (storedSettings ev))) w)"
    using assms by (rule_tac handle_generate_fail)
  show "quizState (store (handleGenerateQuiz ev w)) = QError"
    by (simp add: h caught_def)
  show "quizError (store (handleGenerateQuiz ev w)) = Some (message e)"
    by (simp add: h caught_def)
  show "quizData (store (handleGenerateQuiz ev w)) = JNull"
    by (simp add: h caught_def generating_def)
  show "notifications (handleGenerateQuiz ev w) =
      notifications w @ [(''quiz-error'', ''Quiz generation failed: '' @ message e)]"
    by (simp add: h caught_def generating_def)
next
  fix q e
  assume g: "generateQuiz (syntaxMessage ev) (storedSettings ev) (quizReply ev) = Inr q"
    and l: "questions_length (typeMessage ev) q = Inl e"
  note h = handle_generate_ok [OF assms g, of w]
  show "quizState (store (handleGenerateQuiz ev w)) = QError"
    by (simp add: h l caught_def Let_def)
  show "quizError (store (handleGenerateQuiz ev w)) = Some (message e)"
    by (simp add: h l caught_def Let_def)
  show "quizData (store (handleGenerateQuiz ev w)) = q"
    by (simp add: h l caught_def Let_def)
  show "notifications (handleGenerateQuiz ev w) =
      notifications w @ [(''quiz-error'', ''Quiz generation failed: '' @ message e)]"
    by (simp add: h l caught_def generating_def Let_def)
next
  show "quizState (store (handleGenerateQuiz ev w)) = QError \<longleftrightarrow>
            (\<exists>e. generateQuiz (syntaxMessage ev) (storedSettings ev) (quizReply ev) = Inl e)
          \<or> (\<exists>q e. generateQuiz (syntaxMessage ev) (storedSettings ev) (quizReply ev) = Inr q
                \<and> questions_length (typeMessage ev) q = Inl e)"
  proof (cases "generateQuiz (syntaxMessage ev) (storedSettings ev) (quizReply ev)")
    case (Inl e)
    then show ?thesis
      using assms by (simp add: handle_generate_fail caught_def)
  next
    case (Inr q)
    then show ?thesis
      using assms
      by (cases "questions_length (typeMessage ev) q")
         (simp_all add: handle_generate_ok caught_def Let_def)
  qed
next
  fix status errorText
  assume "quizReply ev = HttpError status errorText"
  then show "\<exists>e. generateQuiz (syntaxMessage ev) (storedSettings ev) (quizReply ev) = Inl e
          \<and> (llm_provider (storedSettings ev) \<in> {''ollama'', ''openai'', ''anthropic''} \<longrightarrow>
               sublist (show_nat status) (message e))"
    by (rule http_error_message)
qed

theorem generation_failure_is_reported_witness:
  "(quizState (store (handleGenerateQuiz (example_env (HttpError 500 ''overloaded'')) idle_world)) = QError
    \<and> quizError (store (handleGenerateQuiz (example_env (HttpError 500 ''overloaded'')) idle_world)) =
        Some ''Ollama request failed (500): overloaded''
    \<and> quizData (store (handleGenerateQuiz (example_env (HttpError 500 ''overloaded'')) idle_world)) = JNull
    \<and> notifications (handleGenerateQuiz (example_env (HttpError 500 ''overloaded'')) idle_world) =
        [(''quiz-error'', ''Quiz generation failed: Ollama request failed (500): overloaded'')]
    \<and> sublist ''500'' ''Ollama request failed (500): overloaded'')
   \<and> (quizState (store (handleGenerateQuiz (example_env (HttpText ''{}'')) idle_world)) = QError
    \<and> quizError (store (handleGenerateQuiz (example_env (HttpText ''{}'')) idle_world)) =
        Some ''Cannot read properties of undefined''
    \<and> quizData (store (handleGenerateQuiz (example_env (HttpText ''{}'')) idle_world)) = JObj []
    \<and> notifications (handleGenerateQuiz (example_env (HttpText ''{}'')) idle_world) =
        [(''quiz-error'', ''Quiz generation failed: Cannot read properties of undefined'')])"
proof -
  have p: "json_of_string ''{}'' = Some (JObj [])"
    by code_simp
  have g: "generateQuiz (syntaxMessage (example_env (HttpText ''{}'')))
      (storedSettings (example_env (HttpText ''{}''))) (quizReply (example_env (HttpText ''{}''))) =
      Inr (JObj [])"
    by (simp add: example_env_def generateQuiz_def dispatch_def llm_provider_def
        generateWithOllama_def parseQuizJSON_def JSON_parse_def p)
  have l: "questions_length (typeMessage (example_env (HttpText ''{}''))) (JObj []) =
      Inl (JsTypeError ''Cannot read properties of undefined'')"
    by (simp add: example_env_def questions_length_def)
  from generation_failure_is_reported
      [of "example_env (HttpError 500 ''overloaded'')" 7 sixty_words 60 idle_world]
  have first: "quizState (store (handleGenerateQuiz (example_env (HttpError 500 ''overloaded'')) idle_world)) = QError
    \<and> quizError (store (handleGenerateQuiz (example_env (HttpError 500 ''overloaded'')) idle_world)) =
        Some ''Ollama request failed (500): overloaded''
    \<and> quizData (store (handleGenerateQuiz (example_env (HttpError 500 ''overloaded'')) idle_world)) = JNull
    \<and> notifications (handleGenerateQuiz (example_env (HttpError 500 ''overloaded'')) idle_world) =
        [(''quiz-error'', ''Quiz generation failed: Ollama request failed (500): overloaded'')]
    \<and> sublist ''500'' ''Ollama request failed (500): overloaded''"
    by (simp add: example_env_def idle_world_def generateQuiz_def dispatch_def llm_provider_def
        generateWithOllama_def show_nat_500)
  from generation_failure_is_reported
      [of "example_env (HttpText ''{}'')" 7 sixty_words 60 idle_world] g l
  have second: "quizState (store (handleGenerateQuiz (example_env (HttpText ''{}'')) idle_world)) = QError
    \<and> quizError (store (handleGenerateQuiz (example_env (HttpText ''{}'')) idle_world)) =
        Some ''Cannot read properties of undefined''
    \<and> quizData (store (handleGenerateQuiz (example_env (HttpText ''{}'')) idle_world)) = JObj []
    \<and> notifications (handleGenerateQuiz (example_env (HttpText ''{}'')) idle_world) =
        [(''quiz-error'', ''Quiz generation failed: Cannot read properties of undefined'')]"
    by (simp add: example_env_def idle_world_def)
  from first second show ?thesis
    by blast
qed

lemma bad_quiz_parses:
  "json_of_string bad_quiz_text = Some (JObj [(''questions'', one_question)])"
  by code_simp

text \<open>
  C9, as the claim states it, fails: nothing checks a question. The provider's text below
  parses, the session reaches \<^verbatim>\<open>'ready'\<close>, and the stored question has one option and
  the correct index 7.
\<close>

theorem unchecked_question_counterexample:
  "quizState (store (handleGenerateQuiz (example_env (HttpText bad_quiz_text)) idle_world)) = QReady
   \<and> quizData (store (handleGenerateQuiz (example_env (HttpText bad_quiz_text)) idle_world)) =
       JObj [(''questions'', one_question)]
   \<and> \<not> quiz_ok (quizData (store (handleGenerateQuiz (example_env (HttpText bad_quiz_text)) idle_world)))"
  by (simp add: handleGenerateQuiz_def example_env_def idle_world_def generateQuiz_def dispatch_def
      llm_provider_def generateWithOllama_def parseQuizJSON_def JSON_parse_def bad_quiz_parses
      questions_length_def one_question_def quiz_ok_def question_ok_def Let_def)

lemma ready_only_after_parse:
  assumes "quizState (store (handleGenerateQuiz ev w)) = QReady"
  shows "\<exists>q. generateQuiz (syntaxMessage ev) (storedSettings ev) (quizReply ev) = Inr q
           \<and> quizData (store (handleGenerateQuiz ev w)) = q"
  using assms
  by (auto simp: handleGenerateQuiz_def refuse_def caught_def Let_def
           split: if_splits injection.splits sum.splits)

text \<open>
  C9, amended. Whenever the handler ends in state \<^verbatim>\<open>'ready'\<close>, the stored \<^verbatim>\<open>quizData\<close>
  is the very value \<^verbatim>\<open>parseQuizJSON\<close> returned for the provider's text; so the stored
  questions satisfy \<open>options.length == 4\<close> and \<open>0 \<le> correctIndex < 4\<close> exactly when
  the document in the provider's text does.
\<close>

theorem stored_quiz_is_parsed_text:
  assumes "quizState (store (handleGenerateQuiz ev w)) = QReady"
  shows "\<exists>raw q. dispatch (storedSettings ev) (quizReply ev) = Inr raw
           \<and> parseQuizJSON (syntaxMessage ev) raw = Inr q
           \<and> quizData (store (handleGenerateQuiz ev w)) = q
           \<and> quiz_ok (quizData (store (handleGenerateQuiz ev w))) = quiz_ok q"
  using ready_only_after_parse [OF assms]
  by (auto simp: generateQuiz_def split: sum.splits)

lemma good_quiz_parses: "json_of_string good_quiz_text = Some good_quiz"
  by code_simp

theorem stored_quiz_is_parsed_text_witness:
  "quizState (store (handleGenerateQuiz (example_env (HttpText good_quiz_text)) idle_world)) = QReady
   \<and> dispatch (storedSettings (example_env (HttpText good_quiz_text)))
        (quizReply (example_env (HttpText good_quiz_text))) = Inr good_quiz_text
   \<and> parseQuizJSON ''Unexpected token'' good_quiz_text = Inr good_quiz
   \<and> quizData (store (handleGenerateQuiz (example_env (HttpText good_quiz_text)) idle_world)) = good_quiz
   \<and> quiz_ok good_quiz"
  using stored_quiz_is_parsed_text [of "example_env (HttpText good_quiz_text)" idle_world]
  by (simp add: handleGenerateQuiz_def example_env_def idle_world_def generateQuiz_def dispatch_def
      llm_provider_def generateWithOllama_def parseQuizJSON_def JSON_parse_def good_quiz_parses
      questions_length_def good_quiz_def quiz_ok_def question_ok_def Let_def)

text \<open>
  C5. \<^verbatim>\<open>generateExplanationsInBackground\<close>, on any session: when the explanation
  request throws, the session is unchanged; when it returns an object whose
  \<^verbatim>\<open>explanations\<close> is an array, that array is stored under \<^verbatim>\<open>quizExplanations\<close> and
  every other key, the state among them, is unchanged; in every case the session is
  unchanged or differs in \<^verbatim>\<open>quizExplanations\<close> only. While \<^verbatim>\<open>quizExplanations\<close> is null,
  the results view shows a question's own non-empty \<^verbatim>\<open>explanation\<close>.
\<close>

theorem enrichment_writes_explanations_only:
  "(\<forall>e. generateExplanations smsg tmsg st r qs = Inl e \<longrightarrow>
        generateExplanationsInBackground smsg tmsg st r qs s = s)
   \<and> (\<forall>kvs xs. generateExplanations smsg tmsg st r qs = Inr (JObj kvs)
          \<and> map_of kvs ''explanations'' = Some (JArr xs) \<longrightarrow>
        generateExplanationsInBackground smsg tmsg st r qs s = s\<lparr>quizExplanations := Some xs\<rparr>)
   \<and> (generateExplanationsInBackground smsg tmsg st r qs s = s
        \<or> (\<exists>xs. generateExplanationsInBackground smsg tmsg st r qs s = s\<lparr>quizExplanations := Some xs\<rparr>))
   \<and> (\<forall>kvs e. quizExplanations s = None \<and> map_of kvs ''explanation'' = Some (JStr e) \<and> e \<noteq> [] \<longrightarrow>
        explanation_shown (quizExplanations s) i (JObj kvs) = JStr e)"
  by (auto simp: generateExplanationsInBackground_def explanation_shown_def
           split: sum.splits json.splits option.splits)

theorem enrichment_writes_explanations_only_witness:
  \<open>generateExplanationsInBackground ''Unexpected token'' ''not a function''
       \<lparr>provider = ''ollama'', maxQuestions = 15\<rparr> (HttpError 500 ''overloaded'')
       (JArr [JObj [(''options'', JArr [])]]) fresh_session = fresh_session
   \<and> generateExplanationsInBackground ''Unexpected token'' ''not a function''
       \<lparr>provider = ''ollama'', maxQuestions = 15\<rparr> (HttpText ''{"explanations":["because"]}'')
       (JArr [JObj [(''options'', JArr [])]]) fresh_session =
     fresh_session\<lparr>quizExplanations := Some [JStr ''because'']\<rparr>
   \<and> quizExplanations fresh_session = None
   \<and> explanation_shown (quizExplanations fresh_session) 0 (JObj [(''explanation'', JStr ''terse'')]) =
       JStr ''terse''\<close>
proof -
  have p: \<open>json_of_string ''{"explanations":["because"]}'' =
      Some (JObj [(''explanations'', JArr [JStr ''because''])])\<close>
    by code_simp
  have f: "generateExplanations ''Unexpected token'' ''not a function''
       \<lparr>provider = ''ollama'', maxQuestions = 15\<rparr> (HttpError 500 ''overloaded'')
       (JArr [JObj [(''options'', JArr [])]]) =
     Inl (JsError ''Ollama request failed (500): overloaded'')"
    by (simp add: generateExplanations_def dispatch_def llm_provider_def generateWithOllama_def
        show_nat_500)
  have g: \<open>generateExplanations ''Unexpected token'' ''not a function''
       \<lparr>provider = ''ollama'', maxQuestions = 15\<rparr> (HttpText ''{"explanations":["because"]}'')
       (JArr [JObj [(''options'', JArr [])]]) =
     Inr (JObj [(''explanations'', JArr [JStr ''because''])])\<close>
    by (simp add: generateExplanations_def dispatch_def llm_provider_def generateWithOllama_def
        parseQuizJSON_def JSON_parse_def p)
  have n: "quizExplanations fresh_session = None"
    by (simp add: fresh_session_def)
  from enrichment_writes_explanations_only
      [of "''Unexpected token''" "''not a function''" "\<lparr>provider = ''ollama'', maxQuestions = 15\<rparr>"
        "HttpError 500 ''overloaded''" "JArr [JObj [(''options'', JArr [])]]" fresh_session 0]
    f
  have 1: "generateExplanationsInBackground ''Unexpected token'' ''not a function''
       \<lparr>provider = ''ollama'', maxQuestions = 15\<rparr> (HttpError 500 ''overloaded'')
       (JArr [JObj [(''options'', JArr [])]]) fresh_session = fresh_session"
    by blast
  from enrichment_writes_explanations_only
      [of "''Unexpected token''" "''not a function''" "\<lparr>provider = ''ollama'', maxQuestions = 15\<rparr>"
        \<open>HttpText ''{"explanations":["because"]}''\<close> "JArr [JObj [(''options'', JArr [])]]"
        fresh_session 0]
    g n
  have 2: \<open>generateExplanationsInBackground ''Unexpected token'' ''not a function''
       \<lparr>provider = ''ollama'', maxQuestions = 15\<rparr> (HttpText ''{"explanations":["because"]}'')
       (JArr [JObj [(''options'', JArr [])]]) fresh_session =
     fresh_session\<lparr>quizExplanations := Some [JStr ''because'']\<rparr>\<close>
    and 3: "explanation_shown (quizExplanations fresh_session) 0
       (JObj [(''explanation'', JStr ''terse'')]) = JStr ''terse''"
    by force+
  from 1 2 3 n show ?thesis
    by blast
qed

section \<open>Properties of the content selection\<close>

lemma scan_append: "scan (xs @ ys) acc = scan ys (scan xs acc)"
  by (induction xs arbitrary: acc) auto

lemma foldl_scan:
  "foldl (\<lambda>acc sel. scan (matching pg sel) acc) acc sels =
     scan (concat (map (matching pg) sels)) acc"
  by (induction sels arbitrary: acc) (auto simp: scan_append)

lemma scan_result:
  "(scan els (b, bs) = (b, bs) \<and> (\<forall>el \<in> set els. isHiddenOrTiny el \<or> scoreElement el \<le> bs))
   \<or> (\<exists>el \<in> set els. \<not> isHiddenOrTiny el \<and> bs < scoreElement el
         \<and> scan els (b, bs) = (Some el, scoreElement el)
         \<and> (\<forall>x \<in> set els. isHiddenOrTiny x \<or> scoreElement x \<le> scoreElement el))"
proof (induction els arbitrary: b bs)
  case Nil
  then show ?case by simp
next
  case (Cons a els)
  show ?case
  proof (cases "\<not> isHiddenOrTiny a \<and> bs < scoreElement a")
    case True
    from Cons.IH [of "Some a" "scoreElement a"] True show ?thesis
      by (auto simp: less_imp_le)
  next
    case False
    from Cons.IH [of b bs] False show ?thesis
      by (auto simp: not_less) 
  qed
qed

lemma findContentContainer_scan:
  "findContentContainer pg =
     (case fst (scan (candidates pg) (None, 0)) of None \<Rightarrow> body pg | Some el \<Rightarrow> el)"
  by (simp add: findContentContainer_def foldl_scan candidates_def)


lemma empty_article_facts:
  "candidates empty_article_page = [region 1 [] 0]
   \<and> \<not> isHiddenOrTiny (region 1 [] 0)
   \<and> findContentContainer empty_article_page = region 0 ''Home About Contact'' 3"
  by code_simp

lemma two_regions_facts:
  "candidates two_regions_page = [region 1 ''short text'' 5, region 2 sixty_words 1]
   \<and> \<not> isHiddenOrTiny (region 1 ''short text'' 5)
   \<and> \<not> isHiddenOrTiny (region 2 sixty_words 1)
   \<and> scoreElement (region 1 ''short text'' 5) = 2
   \<and> scoreElement (region 2 sixty_words 1) = 299
   \<and> findContentContainer two_regions_page = region 2 sixty_words 1
   \<and> page_root two_regions_page = region 1 ''short text'' 5"
  by code_simp

text \<open>
  C8, as the claim states it, fails twice. In \<^verbatim>\<open>findContentContainer\<close> a candidate that
  matches, is visible and is large enough, but has no text, is passed over for the body
  (\<^verbatim>\<open>bestScore\<close> starts at 0 and the comparison is strict). And \<^verbatim>\<open>extractPageText\<close>,
  the extractor the orchestrator injects, computes no score at all: on the second page it
  takes the article, whose score is 2, and not the main region, whose score is 299.
\<close>

theorem content_selection_counterexample:
  "region 1 [] 0 \<in> set (candidates empty_article_page)
   \<and> \<not> isHiddenOrTiny (region 1 [] 0)
   \<and> findContentContainer empty_article_page = body empty_article_page
   \<and> body empty_article_page \<noteq> region 1 [] 0
   \<and> scoreElement (region 1 ''short text'' 5) < scoreElement (region 2 sixty_words 1)
   \<and> page_root two_regions_page = region 1 ''short text'' 5
   \<and> page_root two_regions_page \<noteq> region 2 sixty_words 1"
  using empty_article_facts two_regions_facts
  by (simp add: empty_article_page_def region_def)

text \<open>
  C8, amended. \<^verbatim>\<open>findContentContainer\<close> gives each candidate that is neither hidden nor
  smaller than 50 by 50 the score: length of its trimmed \<^verbatim>\<open>innerText\<close>, divided by the
  number of its child elements or by 1 when it has none. When some such candidate has a
  positive score, the result is such a candidate and no such candidate has a higher score;
  when none has, the result is the body. \<^verbatim>\<open>extractPageText\<close> computes no score: its root
  is the first element of the first selector in its list that matches anything, and the
  body when none matches.
\<close>

theorem container_has_best_score:
  "((\<forall>el \<in> set (candidates pg). isHiddenOrTiny el \<or> scoreElement el \<le> 0) \<longrightarrow>
      findContentContainer pg = body pg)
   \<and> ((\<exists>el \<in> set (candidates pg). \<not> isHiddenOrTiny el \<and> 0 < scoreElement el) \<longrightarrow>
        findContentContainer pg \<in> set (candidates pg)
      \<and> \<not> isHiddenOrTiny (findContentContainer pg)
      \<and> 0 < scoreElement (findContentContainer pg)
      \<and> (\<forall>el \<in> set (candidates pg). \<not> isHiddenOrTiny el \<longrightarrow>
            scoreElement el \<le> scoreElement (findContentContainer pg)))
   \<and> scoreElement el =
       of_nat (length (js_trim (innerText el))) / of_nat (max 1 (childCount el))
   \<and> page_root pg =
       (case filter (\<lambda>sel. matching pg sel \<noteq> []) page_selectors of
          [] \<Rightarrow> body pg
        | sel # sels \<Rightarrow> hd (matching pg sel))"
proof (intro conjI impI)
  assume a: "\<forall>el \<in> set (candidates pg). isHiddenOrTiny el \<or> scoreElement el \<le> 0"
  from scan_result [of "candidates pg" None 0] a
  have "scan (candidates pg) (None, 0) = (None, 0)"
    by (auto simp: not_less [symmetric])
  then show "findContentContainer pg = body pg"
    by (simp add: findContentContainer_scan)
next
  assume a: "\<exists>el \<in> set (candidates pg). \<not> isHiddenOrTiny el \<and> 0 < scoreElement el"
  from scan_result [of "candidates pg" None 0] a
  obtain el where el: "el \<in> set (candidates pg)" "\<not> isHiddenOrTiny el" "0 < scoreElement el"
      "scan (candidates pg) (None, 0) = (Some el, scoreElement el)"
      "\<forall>x \<in> set (candidates pg). isHiddenOrTiny x \<or> scoreElement x \<le> scoreElement el"
    by (auto simp: not_less [symmetric])
  then have f: "findContentContainer pg = el"
    by (simp add: findContentContainer_scan)
  show "findContentContainer pg \<in> set (candidates pg)" using el f by simp
  show "\<not> isHiddenOrTiny (findContentContainer pg)" using el f by simp
  show "0 < scoreElement (findContentContainer pg)" using el f by simp
  show "\<forall>el \<in> set (candidates pg). \<not> isHiddenOrTiny el \<longrightarrow>
          scoreElement el \<le> scoreElement (findContentContainer pg)"
    using el f by auto
next
  show "scoreElement el = of_nat (length (js_trim (innerText el))) / of_nat (max 1 (childCount el))"
    by (simp add: scoreElement_def max_def)
next
  have "first_match pg sels =
      (case filter (\<lambda>sel. matching pg sel \<noteq> []) sels of
         [] \<Rightarrow> None | sel # _ \<Rightarrow> Some (hd (matching pg sel)))" for sels
    by (induction sels) (auto split: list.splits)
  then show "page_root pg =
       (case filter (\<lambda>sel. matching pg sel \<noteq> []) page_selectors of
          [] \<Rightarrow> body pg
        | sel # sels \<Rightarrow> hd (matching pg sel))"
    by (simp add: page_root_def split: list.splits)
qed

theorem container_has_best_score_witness:
  "findContentContainer empty_article_page = body empty_article_page
   \<and> findContentContainer two_regions_page = region 2 sixty_words 1
   \<and> region 2 sixty_words 1 \<in> set (candidates two_regions_page)
   \<and> scoreElement (region 1 ''short text'' 5) \<le> scoreElement (findContentContainer two_regions_page)
   \<and> scoreElement (region 2 sixty_words 1) = 299 / of_nat (max 1 1)
   \<and> page_root two_regions_page = hd (matching two_regions_page ''article'')"
  using container_has_best_score [of empty_article_page "region 2 sixty_words 1"]
    container_has_best_score [of two_regions_page "region 2 sixty_words 1"]
    empty_article_facts two_regions_facts
  by (simp add: empty_article_page_def two_regions_page_def)

section \<open>Properties of the parser\<close>

subsection \<open>Numbers\<close>









subsection \<open>Strings\<close>




subsection \<open>Tokens of a serialized value\<close>

lemma delimited_simps [simp]:
  "delimited []" "delimited (CHR '','' # r)" "delimited (CHR '']'' # r)" "delimited (CHR ''}'' # r)"
  "delimited (CHR '':'' # r)" "delimited (CHR 0x22 # r)"
  by (simp_all add: delimited_def is_digit_def)






declare tokenize.simps [simp del]





subsection \<open>The automaton on the tokens of a value\<close>

lemma run_append:
  "run st (xs @ ys) = (case run st xs of None \<Rightarrow> None | Some st' \<Rightarrow> run st' ys)"
  by (induction xs arbitrary: st) (auto split: option.splits)












subsection \<open>Fences\<close>









subsection \<open>The ends of a serialized value\<close>








subsection \<open>The round trip\<close>








end
